theory Spec2Isabelle
  imports Main
begin

section \<open>Collaborator data\<close>

text \<open>
  The two command handlers of the bot (\<^verbatim>\<open>query for bot - <message>\<close> and
  \<^verbatim>\<open>full query for bot - <message>\<close>) are closures inside \<^verbatim>\<open>main\<close>. They talk to
  four libraries: wit.ai (\<^verbatim>\<open>client.Parse\<close>), \<^verbatim>\<open>encoding/json\<close>, gjson and
  Wolfram Alpha. The libraries are not part of the repository, so the handlers are
  modelled as functions of the collaborators' behaviour, and what a handler does is
  the ordered list of the calls, log lines and replies it makes.

  Go strings are byte sequences: \<open>string\<close>. A Go \<^verbatim>\<open>error\<close> is represented by the
  text that \<^verbatim>\<open>%v\<close> prints for it.
\<close>

type_synonym error = string

text \<open>\<^verbatim>\<open>wolfram.Unit\<close>; the handlers only ever pass \<^verbatim>\<open>wolfram.Metric\<close>.\<close>

datatype Unit = Imperial | Metric

text \<open>
  The fields of \<^verbatim>\<open>wolfram.QueryResult\<close>, \<^verbatim>\<open>wolfram.Pod\<close> and \<^verbatim>\<open>wolfram.SubPod\<close> that
  the handler reads. \<^verbatim>\<open>Success\<close> is a string in the library: the handler compares it
  with the string \<^verbatim>\<open>"false"\<close>. The records are extensible, their \<open>more\<close> part stands
  for the fields the handler never looks at.
\<close>

record SubPod =
  Plaintext :: string

record Pod =
  Title :: string
  SubPods :: "SubPod list"

record QueryResult =
  Success :: string
  Pods :: "Pod list"

text \<open>
  A \<^verbatim>\<open>gjson.Result\<close>, seen through the two methods the handlers call on it:
  \<^verbatim>\<open>value.Exists()\<close> and \<^verbatim>\<open>value.String()\<close>.
\<close>

record Result =
  Exists :: bool
  String :: string

text \<open>
  The collaborators. \<open>'m\<close> is \<^verbatim>\<open>*witai.MessageResponse\<close>. A call that returns
  \<^verbatim>\<open>(x, err)\<close> is a sum: \<open>Inl err\<close> when \<^verbatim>\<open>err != nil\<close>, \<open>Inr x\<close> otherwise.
  \<open>GetQueryResult\<close> is always called with \<^verbatim>\<open>nil\<close> parameters, which are left out.
\<close>

record 'm Clients =
  Parse :: "string \<Rightarrow> error + 'm"
  MarshalIndent :: "'m \<Rightarrow> error + string"
  Get :: "string \<Rightarrow> string \<Rightarrow> Result"
  GetSpokentAnswerQuery :: "string \<Rightarrow> Unit \<Rightarrow> int \<Rightarrow> error + string"
  GetQueryResult :: "string \<Rightarrow> error + QueryResult"

text \<open>\<^verbatim>\<open>slacker.Request\<close>: \<^verbatim>\<open>request.Param(key)\<close> is the request applied to the key.\<close>

type_synonym Request = "string \<Rightarrow> string"

section \<open>What a handler does\<close>

text \<open>
  One event per network call to a collaborator, per \<^verbatim>\<open>log.Printf\<close> and per
  \<^verbatim>\<open>response.Reply\<close>, in program order. A handler either returns or panics (a Go
  index out of range: the index and the length).
\<close>

datatype Event =
    CallParse string
  | CallGetSpokentAnswerQuery string Unit int
  | CallGetQueryResult string
  | LogPrintf string
  | Reply string

datatype Panic = IndexOutOfRange nat nat

datatype Exit = Returned | Panicked Panic

primrec replies :: "Event list \<Rightarrow> string list" where
  "replies [] = []"
| "replies (e # es) = (case e of Reply s \<Rightarrow> s # replies es | _ \<Rightarrow> replies es)"

primrec logs :: "Event list \<Rightarrow> string list" where
  "logs [] = []"
| "logs (e # es) = (case e of LogPrintf s \<Rightarrow> s # logs es | _ \<Rightarrow> logs es)"

primrec knowledgeCalls :: "Event list \<Rightarrow> Event list" where
  "knowledgeCalls [] = []"
| "knowledgeCalls (e # es) =
     (case e of
        CallGetSpokentAnswerQuery q u n \<Rightarrow> e # knowledgeCalls es
      | CallGetQueryResult q \<Rightarrow> e # knowledgeCalls es
      | _ \<Rightarrow> knowledgeCalls es)"

section \<open>Entity extraction\<close>

text \<open>The path both handlers hand to \<^verbatim>\<open>gjson.Get\<close>.\<close>

definition entityPath :: string where
  "entityPath = ''entities.wit$wolfram_search_query:wolfram_search_query.0.value''"

text \<open>
  Both handlers, after the lookup:
  \<^verbatim>\<open>answer := query; if value.Exists() { answer = value.String() }\<close>.
\<close>

definition extractAnswer :: "Result \<Rightarrow> string \<Rightarrow> string" where
  "extractAnswer value query = (if Exists value then String value else query)"

section \<open>The handler of \<^verbatim>\<open>query for bot - <message>\<close>\<close>

text \<open>The same text in \<^verbatim>\<open>main.go\<close> and in the second source file.\<close>

definition queryHandler :: "'m Clients \<Rightarrow> Request \<Rightarrow> Event list \<times> Exit" where
  "queryHandler c request =
     (let query = request ''message'' in
      case Parse c query of
        Inl err \<Rightarrow>
          ([CallParse query,
            LogPrintf (''error calling Wit.ai: '' @ err),
            Reply ''Sorry, I'm having trouble understanding right now.''], Returned)
      | Inr msg \<Rightarrow>
          (case MarshalIndent c msg of
             Inl err \<Rightarrow>
               ([CallParse query,
                 LogPrintf (''error marshalling wit.ai response: '' @ err),
                 Reply ''Sorry, I'm having trouble processing the response.''], Returned)
           | Inr data \<Rightarrow>
               (let rough = data;
                    value = Get c rough entityPath;
                    answer = extractAnswer value query
                in case GetSpokentAnswerQuery c answer Metric 1000 of
                     Inl err \<Rightarrow>
                       ([CallParse query,
                         CallGetSpokentAnswerQuery answer Metric 1000,
                         LogPrintf (''wolfram query failed: '' @ err),
                         Reply ''Sorry, I couldn't get an answer from Wolfram Alpha.''],
                        Returned)
                   | Inr res \<Rightarrow>
                       ([CallParse query,
                         CallGetSpokentAnswerQuery answer Metric 1000,
                         Reply res], Returned))))"

section \<open>The handler of \<^verbatim>\<open>full query for bot - <message>\<close>\<close>

text \<open>
  The last five lines of the handler: \<^verbatim>\<open>pod := res.Pods[1]\<close>, then a
  \<^verbatim>\<open>strings.Builder\<close> that receives \<^verbatim>\<open>fmt.Sprintf("*%s*\n", pod.Title)\<close> and
  \<^verbatim>\<open>fmt.Sprintf("```%s```", pod.SubPods[0].Plaintext)\<close>. Neither index is checked
  here; Go panics on an index that is out of range. \<open>CHR 0x60\<close> is the backquote.
\<close>

definition formatFull :: "QueryResult \<Rightarrow> Panic + string" where
  "formatFull res =
     (if length (Pods res) \<le> 1 then Inl (IndexOutOfRange 1 (length (Pods res)))
      else
        let pod = Pods res ! 1;
            builder = [];
            builder = builder @ (''*'' @ Title pod @ ''*'' @ [CHR 0x0A])
        in if SubPods pod = [] then Inl (IndexOutOfRange 0 0)
           else
             let builder = builder @
                   ([CHR 0x60, CHR 0x60, CHR 0x60] @ Plaintext (SubPods pod ! 0) @
                    [CHR 0x60, CHR 0x60, CHR 0x60])
             in Inr builder)"

text \<open>
  \<^verbatim>\<open>data, _ := json.MarshalIndent(msg, "", "    ")\<close> drops the error; on an error the
  library returns a nil slice, and \<^verbatim>\<open>string(data[:])\<close> is then the empty string.
\<close>

definition fullHandler :: "'m Clients \<Rightarrow> Request \<Rightarrow> Event list \<times> Exit" where
  "fullHandler c request =
     (let query = request ''message'' in
      case Parse c query of
        Inl err \<Rightarrow>
          ([Reply ''Thinking...'',
            CallParse query,
            LogPrintf (''error calling Wit.ai: '' @ err),
            Reply ''Sorry, I'm having trouble understanding right now.''], Returned)
      | Inr msg \<Rightarrow>
          (let data = (case MarshalIndent c msg of Inl err \<Rightarrow> [] | Inr d \<Rightarrow> d);
               rough = data;
               value = Get c rough entityPath;
               answer = extractAnswer value query
           in case GetQueryResult c answer of
                Inl err \<Rightarrow>
                  ([Reply ''Thinking...'',
                    CallParse query,
                    CallGetQueryResult answer,
                    LogPrintf (''wolfram full query failed: '' @ err),
                    Reply ''Sorry, I couldn't get a full report from Wolfram Alpha.''],
                   Returned)
              | Inr res \<Rightarrow>
                  if Success res = ''false'' \<or> length (Pods res) < 2 then
                    ([Reply ''Thinking...'',
                      CallParse query,
                      CallGetQueryResult answer,
                      Reply ''Sorry, Wolfram Alpha couldn't find an answer for that.''],
                     Returned)
                  else
                    (case formatFull res of
                       Inl p \<Rightarrow>
                         ([Reply ''Thinking...'',
                           CallParse query,
                           CallGetQueryResult answer], Panicked p)
                     | Inr s \<Rightarrow>
                         ([Reply ''Thinking...'',
                           CallParse query,
                           CallGetQueryResult answer,
                           Reply s], Returned))))"

section \<open>Concrete collaborators\<close>

text \<open>
  Collaborators with fixed answers, on which the handlers can be run. The message type
  is \<open>unit\<close>: the handlers never look into a \<^verbatim>\<open>MessageResponse\<close>. \<open>Get\<close> finds
  nothing in an empty text and nothing at any other path than the one the handlers ask
  for. \<^verbatim>\<open>request.Param\<close> is the empty string for a parameter the command does not
  have.
\<close>

definition requestOf :: "string \<Rightarrow> Request" where
  "requestOf message key = (if key = ''message'' then message else [])"

definition notFound :: Result where
  "notFound = \<lparr>Exists = False, String = []\<rparr>"

definition found :: "string \<Rightarrow> Result" where
  "found s = \<lparr>Exists = True, String = s\<rparr>"

definition stubClients ::
  "error + unit \<Rightarrow> error + string \<Rightarrow> Result \<Rightarrow> (string \<Rightarrow> error + string) \<Rightarrow>
   (string \<Rightarrow> error + QueryResult) \<Rightarrow> unit Clients" where
  "stubClients p m g s f =
     \<lparr>Parse = (\<lambda>query. p),
      MarshalIndent = (\<lambda>msg. m),
      Get = (\<lambda>json path. if json = [] then notFound
                          else if path = entityPath then g else notFound),
      GetSpokentAnswerQuery = (\<lambda>q u n. s q),
      GetQueryResult = f\<rparr>"

definition spokenEngine :: "string \<Rightarrow> error + string" where
  "spokenEngine q =
     (if q = ''capital of france'' then Inr ''Paris'' else Inl ''501 Not Implemented'')"

definition fullEngine :: "QueryResult \<Rightarrow> string \<Rightarrow> error + QueryResult" where
  "fullEngine r q = (if q = ''weather in new york'' then Inr r else Inl ''501 Not Implemented'')"

text \<open>
  A report of three pods; the second has two subpods. \<open>CHR 0xC2, CHR 0xB0\<close> is the
  degree sign in UTF-8.
\<close>

definition weatherReport :: QueryResult where
  "weatherReport =
     \<lparr>Success = ''true'',
      Pods = [\<lparr>Title = ''Input interpretation'',
               SubPods = [\<lparr>Plaintext = ''weather | New York''\<rparr>]\<rparr>,
              \<lparr>Title = ''Weather'',
               SubPods = [\<lparr>Plaintext = ''72'' @ [CHR 0xC2, CHR 0xB0] @ ''F''\<rparr>,
                          \<lparr>Plaintext = ''clear''\<rparr>]\<rparr>,
              \<lparr>Title = ''Forecast'', SubPods = [\<lparr>Plaintext = ''rain''\<rparr>]\<rparr>]\<rparr>"

definition weatherReply :: string where
  "weatherReply =
     ''*Weather*'' @ [CHR 0x0A, CHR 0x60, CHR 0x60, CHR 0x60] @
     ''72'' @ [CHR 0xC2, CHR 0xB0] @ ''F'' @ [CHR 0x60, CHR 0x60, CHR 0x60]"

text \<open>The NLU service finds the entity \<^verbatim>\<open>capital of france\<close>.\<close>

definition franceClients :: "unit Clients" where
  "franceClients =
     stubClients (Inr ()) (Inr ''{ }'') (found ''capital of france'') spokenEngine
       (fullEngine weatherReport)"

text \<open>The NLU service finds no entity.\<close>

definition weatherClients :: "unit Clients" where
  "weatherClients =
     stubClients (Inr ()) (Inr ''{ }'') notFound spokenEngine (fullEngine weatherReport)"

text \<open>The weather report with a \<^verbatim>\<open>Success\<close> field that is neither "true" nor "false".\<close>

definition unflaggedReport :: QueryResult where
  "unflaggedReport = weatherReport\<lparr>Success := []\<rparr>"

definition unflaggedClients :: "unit Clients" where
  "unflaggedClients =
     stubClients (Inr ()) (Inr ''{ }'') notFound spokenEngine (fullEngine unflaggedReport)"

text \<open>The knowledge engine does not understand the query.\<close>

definition failedReport :: QueryResult where
  "failedReport = \<lparr>Success = ''false'', Pods = []\<rparr>"

definition failedClients :: "unit Clients" where
  "failedClients =
     stubClients (Inr ()) (Inr ''{ }'') notFound spokenEngine (fullEngine failedReport)"

text \<open>The call to the NLU service fails.\<close>

definition parseFailClients :: "unit Clients" where
  "parseFailClients =
     stubClients (Inl ''401 Unauthorized'') (Inr ''{ }'') notFound spokenEngine
       (fullEngine weatherReport)"

text \<open>\<^verbatim>\<open>json.MarshalIndent\<close> fails on the NLU response.\<close>

definition marshalFailClients :: "unit Clients" where
  "marshalFailClients =
     stubClients (Inr ()) (Inl ''json: unsupported value: NaN'') (found ''capital of france'')
       spokenEngine (fullEngine weatherReport)"

text \<open>The NLU service finds the entity, and the string form of its value is empty.\<close>

definition emptyEntityClients :: "unit Clients" where
  "emptyEntityClients =
     stubClients (Inr ()) (Inr ''{ }'') (found []) spokenEngine (fullEngine weatherReport)"

text \<open>A successful report of two pods whose second pod has no subpod.\<close>

definition noSubPodsReport :: QueryResult where
  "noSubPodsReport =
     \<lparr>Success = ''true'',
      Pods = [\<lparr>Title = ''Input interpretation'',
               SubPods = [\<lparr>Plaintext = ''weather | New York''\<rparr>]\<rparr>,
              \<lparr>Title = ''Result'', SubPods = []\<rparr>]\<rparr>"

definition noSubPodsClients :: "unit Clients" where
  "noSubPodsClients =
     stubClients (Inr ()) (Inr ''{ }'') notFound spokenEngine (fullEngine noSubPodsReport)"

section \<open>The handlers, branch by branch\<close>

text \<open>What the concrete collaborators answer.\<close>

lemma stubClients_simps:
  "Parse (stubClients p m g s f) query = p"
  "MarshalIndent (stubClients p m g s f) msg = m"
  "Get (stubClients p m g s f) json path =
     (if json = [] then notFound else if path = entityPath then g else notFound)"
  "GetSpokentAnswerQuery (stubClients p m g s f) q u n = s q"
  "GetQueryResult (stubClients p m g s f) = f"
  by (simp_all add: stubClients_def)

lemma requestOf_message: "requestOf message ''message'' = message"
  by (simp add: requestOf_def)

text \<open>
  One equation per path through a handler: what it does when the collaborators answer
  as the premises say.
\<close>

lemma queryHandler_parse_error:
  "Parse c (request ''message'') = Inl err \<Longrightarrow>
   queryHandler c request =
     ([CallParse (request ''message''),
       LogPrintf (''error calling Wit.ai: '' @ err),
       Reply ''Sorry, I'm having trouble understanding right now.''], Returned)"
  by (simp add: queryHandler_def)

lemma queryHandler_marshal_error:
  "Parse c (request ''message'') = Inr msg \<Longrightarrow> MarshalIndent c msg = Inl err \<Longrightarrow>
   queryHandler c request =
     ([CallParse (request ''message''),
       LogPrintf (''error marshalling wit.ai response: '' @ err),
       Reply ''Sorry, I'm having trouble processing the response.''], Returned)"
  by (simp add: queryHandler_def)

lemma queryHandler_wolfram_error:
  "Parse c (request ''message'') = Inr msg \<Longrightarrow> MarshalIndent c msg = Inr data \<Longrightarrow>
   GetSpokentAnswerQuery c (extractAnswer (Get c data entityPath) (request ''message''))
     Metric 1000 = Inl err \<Longrightarrow>
   queryHandler c request =
     ([CallParse (request ''message''),
       CallGetSpokentAnswerQuery
         (extractAnswer (Get c data entityPath) (request ''message'')) Metric 1000,
       LogPrintf (''wolfram query failed: '' @ err),
       Reply ''Sorry, I couldn't get an answer from Wolfram Alpha.''], Returned)"
  by (simp add: queryHandler_def Let_def)

lemma queryHandler_answer:
  "Parse c (request ''message'') = Inr msg \<Longrightarrow> MarshalIndent c msg = Inr data \<Longrightarrow>
   GetSpokentAnswerQuery c (extractAnswer (Get c data entityPath) (request ''message''))
     Metric 1000 = Inr res \<Longrightarrow>
   queryHandler c request =
     ([CallParse (request ''message''),
       CallGetSpokentAnswerQuery
         (extractAnswer (Get c data entityPath) (request ''message'')) Metric 1000,
       Reply res], Returned)"
  by (simp add: queryHandler_def Let_def)

lemma fullHandler_parse_error:
  "Parse c (request ''message'') = Inl err \<Longrightarrow>
   fullHandler c request =
     ([Reply ''Thinking...'',
       CallParse (request ''message''),
       LogPrintf (''error calling Wit.ai: '' @ err),
       Reply ''Sorry, I'm having trouble understanding right now.''], Returned)"
  by (simp add: fullHandler_def)

lemma fullHandler_wolfram_error:
  "Parse c (request ''message'') = Inr msg \<Longrightarrow>
   a = extractAnswer
         (Get c (case MarshalIndent c msg of Inl err \<Rightarrow> [] | Inr d \<Rightarrow> d) entityPath)
         (request ''message'') \<Longrightarrow>
   GetQueryResult c a = Inl err \<Longrightarrow>
   fullHandler c request =
     ([Reply ''Thinking...'',
       CallParse (request ''message''),
       CallGetQueryResult a,
       LogPrintf (''wolfram full query failed: '' @ err),
       Reply ''Sorry, I couldn't get a full report from Wolfram Alpha.''], Returned)"
  by (simp add: fullHandler_def Let_def)

lemma fullHandler_no_answer:
  "Parse c (request ''message'') = Inr msg \<Longrightarrow>
   a = extractAnswer
         (Get c (case MarshalIndent c msg of Inl err \<Rightarrow> [] | Inr d \<Rightarrow> d) entityPath)
         (request ''message'') \<Longrightarrow>
   GetQueryResult c a = Inr res \<Longrightarrow>
   Success res = ''false'' \<or> length (Pods res) < 2 \<Longrightarrow>
   fullHandler c request =
     ([Reply ''Thinking...'',
       CallParse (request ''message''),
       CallGetQueryResult a,
       Reply ''Sorry, Wolfram Alpha couldn't find an answer for that.''], Returned)"
  by (simp add: fullHandler_def Let_def)

lemma fullHandler_format:
  "Parse c (request ''message'') = Inr msg \<Longrightarrow>
   a = extractAnswer
         (Get c (case MarshalIndent c msg of Inl err \<Rightarrow> [] | Inr d \<Rightarrow> d) entityPath)
         (request ''message'') \<Longrightarrow>
   GetQueryResult c a = Inr res \<Longrightarrow>
   \<not> (Success res = ''false'' \<or> length (Pods res) < 2) \<Longrightarrow>
   fullHandler c request =
     (case formatFull res of
        Inl p \<Rightarrow>
          ([Reply ''Thinking...'', CallParse (request ''message''), CallGetQueryResult a],
           Panicked p)
      | Inr s \<Rightarrow>
          ([Reply ''Thinking...'', CallParse (request ''message''), CallGetQueryResult a,
            Reply s], Returned))"
  by (cases "formatFull res") (simp_all add: fullHandler_def Let_def)

lemma formatFull_reply:
  "2 \<le> length (Pods res) \<Longrightarrow> SubPods (Pods res ! 1) \<noteq> [] \<Longrightarrow>
   formatFull res =
     Inr (''*'' @ Title (Pods res ! 1) @ ''*'' @ [CHR 0x0A] @
          [CHR 0x60, CHR 0x60, CHR 0x60] @ Plaintext (SubPods (Pods res ! 1) ! 0) @
          [CHR 0x60, CHR 0x60, CHR 0x60])"
  by (simp add: formatFull_def Let_def)

lemma formatFull_panic:
  "2 \<le> length (Pods res) \<Longrightarrow> SubPods (Pods res ! 1) = [] \<Longrightarrow>
   formatFull res = Inl (IndexOutOfRange 0 0)"
  by (simp add: formatFull_def Let_def)

text \<open>
  Once the NLU call has succeeded (and, in spoken mode, the serialization), every path
  of a handler makes exactly one call to the knowledge engine, with the extracted answer.
\<close>

lemma queryHandler_knowledgeCalls:
  assumes p: "Parse c (request ''message'') = Inr msg"
    and m: "MarshalIndent c msg = Inr data"
  shows "knowledgeCalls (fst (queryHandler c request)) =
     [CallGetSpokentAnswerQuery
        (extractAnswer (Get c data entityPath) (request ''message'')) Metric 1000]"
proof (cases "GetSpokentAnswerQuery c
    (extractAnswer (Get c data entityPath) (request ''message'')) Metric 1000")
  case (Inl err)
  show ?thesis
    by (simp add: queryHandler_wolfram_error [of c request msg data err, OF p m Inl])
next
  case (Inr res)
  show ?thesis
    by (simp add: queryHandler_answer [of c request msg data res, OF p m Inr])
qed

lemma fullHandler_knowledgeCalls:
  assumes p: "Parse c (request ''message'') = Inr msg"
    and a: "a = extractAnswer
         (Get c (case MarshalIndent c msg of Inl err \<Rightarrow> [] | Inr d \<Rightarrow> d) entityPath)
         (request ''message'')"
  shows "knowledgeCalls (fst (fullHandler c request)) = [CallGetQueryResult a]"
proof (cases "GetQueryResult c a")
  case (Inl err)
  show ?thesis by (simp add: fullHandler_wolfram_error [of c request msg a err, OF p a Inl])
next
  case (Inr res)
  show ?thesis
  proof (cases "Success res = ''false'' \<or> length (Pods res) < 2")
    case True
    show ?thesis by (simp add: fullHandler_no_answer [of c request msg a res, OF p a Inr True])
  next
    case False
    show ?thesis
      by (cases "formatFull res") (simp_all add: fullHandler_format [of c request msg a res, OF p a Inr False])
  qed
qed

text \<open>
  The spoken handler replies once on each of its four paths and always returns.
\<close>

lemma queryHandler_one_reply:
  "length (replies (fst (queryHandler c request))) = 1 \<and> snd (queryHandler c request) = Returned"
proof (cases "Parse c (request ''message'')")
  case (Inl err)
  show ?thesis by (simp add: queryHandler_parse_error [of c request err, OF Inl])
next
  case p: (Inr msg)
  show ?thesis
  proof (cases "MarshalIndent c msg")
    case (Inl err)
    show ?thesis by (simp add: queryHandler_marshal_error [of c request msg err, OF p Inl])
  next
    case m: (Inr data)
    show ?thesis
    proof (cases "GetSpokentAnswerQuery c
        (extractAnswer (Get c data entityPath) (request ''message'')) Metric 1000")
      case (Inl err)
      show ?thesis
        by (simp add: queryHandler_wolfram_error [of c request msg data err, OF p m Inl])
    next
      case (Inr res)
      show ?thesis
        by (simp add: queryHandler_answer [of c request msg data res, OF p m Inr])
    qed
  qed
qed

text \<open>
  The full handler replies twice when it returns, and fails to return only inside the
  formatting of a report that passed the check.
\<close>

lemma fullHandler_returned_replies:
  assumes "snd (fullHandler c request) = Returned"
  shows "\<exists>final. replies (fst (fullHandler c request)) = [''Thinking...'', final]"
proof (cases "Parse c (request ''message'')")
  case (Inl err)
  show ?thesis by (simp add: fullHandler_parse_error [of c request err, OF Inl])
next
  case p: (Inr msg)
  define a where "a = extractAnswer
         (Get c (case MarshalIndent c msg of Inl err \<Rightarrow> [] | Inr d \<Rightarrow> d) entityPath)
         (request ''message'')"
  show ?thesis
  proof (cases "GetQueryResult c a")
    case (Inl err)
    show ?thesis
      by (simp add: fullHandler_wolfram_error [of c request msg a err, OF p a_def Inl])
  next
    case q: (Inr res)
    show ?thesis
    proof (cases "Success res = ''false'' \<or> length (Pods res) < 2")
      case True
      show ?thesis
        by (simp add: fullHandler_no_answer [of c request msg a res, OF p a_def q True])
    next
      case False
      from assms show ?thesis
        by (cases "formatFull res")
          (simp_all add: fullHandler_format [of c request msg a res, OF p a_def q False])
    qed
  qed
qed

lemma fullHandler_panic_only_in_format:
  assumes "snd (fullHandler c request) \<noteq> Returned"
  shows "\<exists>msg res.
           Parse c (request ''message'') = Inr msg \<and>
           GetQueryResult c
             (extractAnswer
                (Get c (case MarshalIndent c msg of Inl err \<Rightarrow> [] | Inr d \<Rightarrow> d) entityPath)
                (request ''message'')) = Inr res \<and>
           Success res \<noteq> ''false'' \<and> 2 \<le> length (Pods res) \<and> SubPods (Pods res ! 1) = []"
proof (cases "Parse c (request ''message'')")
  case (Inl err)
  with assms show ?thesis by (simp add: fullHandler_parse_error [of c request err, OF Inl])
next
  case p: (Inr msg)
  define a where "a = extractAnswer
         (Get c (case MarshalIndent c msg of Inl err \<Rightarrow> [] | Inr d \<Rightarrow> d) entityPath)
         (request ''message'')"
  show ?thesis
  proof (cases "GetQueryResult c a")
    case (Inl err)
    with assms show ?thesis
      by (simp add: fullHandler_wolfram_error [of c request msg a err, OF p a_def Inl])
  next
    case q: (Inr res)
    show ?thesis
    proof (cases "Success res = ''false'' \<or> length (Pods res) < 2")
      case True
      with assms show ?thesis
        by (simp add: fullHandler_no_answer [of c request msg a res, OF p a_def q True])
    next
      case False
      then have ok: "Success res \<noteq> ''false''" "2 \<le> length (Pods res)" by simp_all
      have "SubPods (Pods res ! 1) = []"
      proof (rule ccontr)
        assume "SubPods (Pods res ! 1) \<noteq> []"
        from formatFull_reply [OF ok(2) this] assms show False
          by (simp add: fullHandler_format [of c request msg a res, OF p a_def q False])
      qed
      with p q ok show ?thesis unfolding a_def by blast
    qed
  qed
qed

lemma queryHandler_calls_shape:
  "knowledgeCalls (fst (queryHandler c request)) = [] \<or>
   (\<exists>a. knowledgeCalls (fst (queryHandler c request)) =
      [CallGetSpokentAnswerQuery a Metric 1000])"
proof (cases "Parse c (request ''message'')")
  case (Inl err)
  show ?thesis by (simp add: queryHandler_parse_error [of c request err, OF Inl])
next
  case p: (Inr msg)
  show ?thesis
  proof (cases "MarshalIndent c msg")
    case (Inl err)
    show ?thesis by (simp add: queryHandler_marshal_error [of c request msg err, OF p Inl])
  next
    case m: (Inr data)
    show ?thesis
      by (simp add: queryHandler_knowledgeCalls [of c request msg data, OF p m])
  qed
qed

text \<open>
  The run of the full handler on the weather report.
\<close>

lemma weather_run:
  "fullHandler weatherClients (requestOf ''weather in new york'') =
     ([Reply ''Thinking...'',
       CallParse ''weather in new york'',
       CallGetQueryResult ''weather in new york'',
       Reply weatherReply], Returned)"
  by (simp add: weatherClients_def weatherReport_def weatherReply_def
      fullHandler_def formatFull_def extractAnswer_def stubClients_simps requestOf_message
      fullEngine_def notFound_def Let_def)

section \<open>Entity extraction (C1, C7)\<close>

text \<open>
  C1. After a successful NLU call, the query that a handler sends to the knowledge engine
  is the string form of the value that \<^verbatim>\<open>gjson.Get\<close> finds at the fixed entity path in
  the serialized NLU result when such a value exists, whatever the user wrote, and the
  user's query unchanged when none exists. \<open>rough\<close> is the serialized text the handler
  looks into: in full mode the empty text when the serialization failed; the spoken
  handler reaches the extraction only when the serialization succeeded.
\<close>

theorem refined_query_sent_downstream:
  assumes "Parse c (request ''message'') = Inr msg"
    and "rough = (case MarshalIndent c msg of Inl err \<Rightarrow> [] | Inr data \<Rightarrow> data)"
    and "value = Get c rough entityPath"
  shows "knowledgeCalls (fst (fullHandler c request)) =
           [CallGetQueryResult
              (if Exists value then String value else request ''message'')] \<and>
         (MarshalIndent c msg = Inr rough \<longrightarrow>
          knowledgeCalls (fst (queryHandler c request)) =
            [CallGetSpokentAnswerQuery
               (if Exists value then String value else request ''message'') Metric 1000])"
proof -
  have "extractAnswer value (request ''message'') =
      extractAnswer
        (Get c (case MarshalIndent c msg of Inl err \<Rightarrow> [] | Inr d \<Rightarrow> d) entityPath)
        (request ''message'')"
    using assms(2,3) by simp
  from fullHandler_knowledgeCalls [of c request msg, OF assms(1) this]
  have full: "knowledgeCalls (fst (fullHandler c request)) =
      [CallGetQueryResult (extractAnswer value (request ''message''))]" .
  have spoken: "knowledgeCalls (fst (queryHandler c request)) =
      [CallGetSpokentAnswerQuery (extractAnswer value (request ''message'')) Metric 1000]"
    if "MarshalIndent c msg = Inr rough"
    using queryHandler_knowledgeCalls [of c request msg rough, OF assms(1) that] assms(3)
    by simp
  show ?thesis using full spoken by (simp add: extractAnswer_def)
qed

text \<open>
  C1, on two runs: the entity \<^verbatim>\<open>capital of france\<close> replaces the user's question, and
  without an entity the user's text is sent as it is.
\<close>

theorem refined_query_sent_downstream_witness:
  "knowledgeCalls (fst (fullHandler franceClients (requestOf ''what is the capital of france''))) =
     [CallGetQueryResult ''capital of france''] \<and>
   knowledgeCalls (fst (queryHandler franceClients (requestOf ''what is the capital of france''))) =
     [CallGetSpokentAnswerQuery ''capital of france'' Metric 1000] \<and>
   knowledgeCalls (fst (fullHandler weatherClients (requestOf ''weather in new york''))) =
     [CallGetQueryResult ''weather in new york''] \<and>
   knowledgeCalls (fst (queryHandler weatherClients (requestOf ''weather in new york''))) =
     [CallGetSpokentAnswerQuery ''weather in new york'' Metric 1000]"
proof -
  have p1: "Parse franceClients (requestOf ''what is the capital of france'' ''message'') = Inr ()"
    by (simp add: franceClients_def stubClients_simps)
  have m1: "MarshalIndent franceClients () = Inr ''{ }''"
    by (simp add: franceClients_def stubClients_simps)
  have r1: "''{ }'' = (case MarshalIndent franceClients () of Inl err \<Rightarrow> [] | Inr data \<Rightarrow> data)"
    by (simp add: m1)
  have v1: "found ''capital of france'' = Get franceClients ''{ }'' entityPath"
    by (simp add: franceClients_def stubClients_simps)
  have p2: "Parse weatherClients (requestOf ''weather in new york'' ''message'') = Inr ()"
    by (simp add: weatherClients_def stubClients_simps)
  have m2: "MarshalIndent weatherClients () = Inr ''{ }''"
    by (simp add: weatherClients_def stubClients_simps)
  have r2: "''{ }'' = (case MarshalIndent weatherClients () of Inl err \<Rightarrow> [] | Inr data \<Rightarrow> data)"
    by (simp add: m2)
  have v2: "notFound = Get weatherClients ''{ }'' entityPath"
    by (simp add: weatherClients_def stubClients_simps)
  show ?thesis
    using refined_query_sent_downstream
        [of franceClients "requestOf ''what is the capital of france''" "()" "''{ }''"
          "found ''capital of france''", OF p1 r1 v1]
      refined_query_sent_downstream
        [of weatherClients "requestOf ''weather in new york''" "()" "''{ }''" notFound,
          OF p2 r2 v2]
      m1 m2
    by (simp add: found_def notFound_def requestOf_message)
qed

text \<open>
  C7, as the specification states it, fails: the user's message \<^verbatim>\<open>hi\<close> is not empty,
  the NLU result has a value at the entity path whose string form is empty, and both
  handlers send the empty query to the knowledge engine.
\<close>

theorem empty_entity_value_sent:
  "requestOf ''hi'' ''message'' \<noteq> [] \<and>
   knowledgeCalls (fst (queryHandler emptyEntityClients (requestOf ''hi''))) =
     [CallGetSpokentAnswerQuery [] Metric 1000] \<and>
   knowledgeCalls (fst (fullHandler emptyEntityClients (requestOf ''hi''))) =
     [CallGetQueryResult []]"
  by (simp add: emptyEntityClients_def queryHandler_def fullHandler_def extractAnswer_def
      stubClients_simps requestOf_message fullEngine_def spokenEngine_def found_def Let_def)

text \<open>
  C7, amended. For a non-empty user message the query sent to the knowledge engine is
  non-empty whenever no value exists at the entity path, or the value that exists has a
  non-empty string form.
\<close>

theorem refined_query_nonempty:
  assumes "request ''message'' \<noteq> []"
    and "Parse c (request ''message'') = Inr msg"
    and "rough = (case MarshalIndent c msg of Inl err \<Rightarrow> [] | Inr data \<Rightarrow> data)"
    and "value = Get c rough entityPath"
    and "Exists value \<longrightarrow> String value \<noteq> []"
    and "q = (if Exists value then String value else request ''message'')"
  shows "q \<noteq> [] \<and>
         knowledgeCalls (fst (fullHandler c request)) = [CallGetQueryResult q] \<and>
         (MarshalIndent c msg = Inr rough \<longrightarrow>
          knowledgeCalls (fst (queryHandler c request)) =
            [CallGetSpokentAnswerQuery q Metric 1000])"
proof -
  have q: "q = extractAnswer value (request ''message'')"
    using assms(6) by (simp add: extractAnswer_def)
  have a: "q =
      extractAnswer
        (Get c (case MarshalIndent c msg of Inl err \<Rightarrow> [] | Inr d \<Rightarrow> d) entityPath)
        (request ''message'')"
    using q assms(3,4) by simp
  have ne: "q \<noteq> []"
    using assms(1,5,6) by simp
  have full: "knowledgeCalls (fst (fullHandler c request)) = [CallGetQueryResult q]"
    by (rule fullHandler_knowledgeCalls [of c request msg q, OF assms(2) a])
  have spoken: "knowledgeCalls (fst (queryHandler c request)) =
      [CallGetSpokentAnswerQuery q Metric 1000]"
    if "MarshalIndent c msg = Inr rough"
    using queryHandler_knowledgeCalls [of c request msg rough, OF assms(2) that] assms(4) q
    by simp
  from ne full spoken show ?thesis by blast
qed

text \<open>
  C7, amended, on the run where the entity \<^verbatim>\<open>capital of france\<close> is found.
\<close>

theorem refined_query_nonempty_witness:
  "knowledgeCalls (fst (fullHandler franceClients (requestOf ''what is the capital of france''))) =
     [CallGetQueryResult ''capital of france''] \<and>
   knowledgeCalls (fst (queryHandler franceClients (requestOf ''what is the capital of france''))) =
     [CallGetSpokentAnswerQuery ''capital of france'' Metric 1000] \<and>
   ''capital of france'' \<noteq> []"
proof -
  have n: "requestOf ''what is the capital of france'' ''message'' \<noteq> []"
    by (simp add: requestOf_message)
  have p: "Parse franceClients (requestOf ''what is the capital of france'' ''message'') = Inr ()"
    by (simp add: franceClients_def stubClients_simps)
  have m: "MarshalIndent franceClients () = Inr ''{ }''"
    by (simp add: franceClients_def stubClients_simps)
  have r: "''{ }'' = (case MarshalIndent franceClients () of Inl err \<Rightarrow> [] | Inr data \<Rightarrow> data)"
    by (simp add: m)
  have v: "found ''capital of france'' = Get franceClients ''{ }'' entityPath"
    by (simp add: franceClients_def stubClients_simps)
  have e: "Exists (found ''capital of france'') \<longrightarrow> String (found ''capital of france'') \<noteq> []"
    by (simp add: found_def)
  have q: "''capital of france'' =
      (if Exists (found ''capital of france'') then String (found ''capital of france'')
       else requestOf ''what is the capital of france'' ''message'')"
    by (simp add: found_def)
  show ?thesis
    using refined_query_nonempty
      [of "requestOf ''what is the capital of france''" franceClients "()" "''{ }''"
        "found ''capital of france''" "''capital of france''", OF n p r v e q] m
    by simp
qed

section \<open>The usability check and the formatting (C2, C3, C10)\<close>

text \<open>
  C2, as the specification states it, fails: a report whose \<^verbatim>\<open>Success\<close> field is the
  empty string does not have its success flag true, yet with its three pods it passes
  the handler's check and is formatted; the reply is not the no-answer message.
\<close>

theorem unflagged_report_is_formatted:
  "\<not> (Success unflaggedReport = ''true'' \<and> 2 \<le> length (Pods unflaggedReport)) \<and>
   fullHandler unflaggedClients (requestOf ''weather in new york'') =
     ([Reply ''Thinking...'',
       CallParse ''weather in new york'',
       CallGetQueryResult ''weather in new york'',
       Reply weatherReply], Returned) \<and>
   weatherReply \<noteq> ''Sorry, Wolfram Alpha couldn't find an answer for that.''"
  by (simp add: unflaggedClients_def unflaggedReport_def weatherReport_def weatherReply_def
      fullHandler_def formatFull_def extractAnswer_def stubClients_simps requestOf_message
      fullEngine_def notFound_def Let_def)

text \<open>
  C2, amended. For every report the knowledge engine returns in full mode: when its
  \<^verbatim>\<open>Success\<close> field is the string "false" or it has fewer than two pods, the handler
  replies with the fixed no-answer message and the formatting has no part in what it
  does; the formatting runs exactly on the reports whose \<^verbatim>\<open>Success\<close> field is not the
  string "false" and that have at least two pods.
\<close>

theorem usability_check:
  assumes "Parse c (request ''message'') = Inr msg"
    and "a = extractAnswer
         (Get c (case MarshalIndent c msg of Inl err \<Rightarrow> [] | Inr d \<Rightarrow> d) entityPath)
         (request ''message'')"
    and "GetQueryResult c a = Inr res"
  shows "(Success res = ''false'' \<or> length (Pods res) < 2 \<longrightarrow>
          fullHandler c request =
            ([Reply ''Thinking...'',
              CallParse (request ''message''),
              CallGetQueryResult a,
              Reply ''Sorry, Wolfram Alpha couldn't find an answer for that.''], Returned)) \<and>
         (Success res \<noteq> ''false'' \<and> 2 \<le> length (Pods res) \<longrightarrow>
          fullHandler c request =
            (case formatFull res of
               Inl p \<Rightarrow>
                 ([Reply ''Thinking...'', CallParse (request ''message''),
                   CallGetQueryResult a], Panicked p)
             | Inr s \<Rightarrow>
                 ([Reply ''Thinking...'', CallParse (request ''message''),
                   CallGetQueryResult a, Reply s], Returned)))"
proof (intro conjI impI)
  assume "Success res = ''false'' \<or> length (Pods res) < 2"
  then show "fullHandler c request =
            ([Reply ''Thinking...'',
              CallParse (request ''message''),
              CallGetQueryResult a,
              Reply ''Sorry, Wolfram Alpha couldn't find an answer for that.''], Returned)"
    by (rule fullHandler_no_answer [of c request msg a res, OF assms])
next
  assume "Success res \<noteq> ''false'' \<and> 2 \<le> length (Pods res)"
  then have "\<not> (Success res = ''false'' \<or> length (Pods res) < 2)"
    by (simp add: not_less)
  then show "fullHandler c request =
            (case formatFull res of
               Inl p \<Rightarrow>
                 ([Reply ''Thinking...'', CallParse (request ''message''),
                   CallGetQueryResult a], Panicked p)
             | Inr s \<Rightarrow>
                 ([Reply ''Thinking...'', CallParse (request ''message''),
                   CallGetQueryResult a, Reply s], Returned))"
    by (rule fullHandler_format [of c request msg a res, OF assms])
qed

text \<open>
  C2, amended, on the failed report and on the weather report.
\<close>

theorem usability_check_witness:
  "fullHandler failedClients (requestOf ''weather in new york'') =
     ([Reply ''Thinking...'',
       CallParse ''weather in new york'',
       CallGetQueryResult ''weather in new york'',
       Reply ''Sorry, Wolfram Alpha couldn't find an answer for that.''], Returned) \<and>
   fullHandler weatherClients (requestOf ''weather in new york'') =
     ([Reply ''Thinking...'',
       CallParse ''weather in new york'',
       CallGetQueryResult ''weather in new york'',
       Reply weatherReply], Returned)"
proof -
  have p1: "Parse failedClients (requestOf ''weather in new york'' ''message'') = Inr ()"
    by (simp add: failedClients_def stubClients_simps)
  have a1: "''weather in new york'' = extractAnswer
         (Get failedClients (case MarshalIndent failedClients () of Inl err \<Rightarrow> [] | Inr d \<Rightarrow> d)
            entityPath)
         (requestOf ''weather in new york'' ''message'')"
    by (simp add: failedClients_def stubClients_simps extractAnswer_def notFound_def
        requestOf_message)
  have q1: "GetQueryResult failedClients ''weather in new york'' = Inr failedReport"
    by (simp add: failedClients_def stubClients_simps fullEngine_def)
  have p2: "Parse weatherClients (requestOf ''weather in new york'' ''message'') = Inr ()"
    by (simp add: weatherClients_def stubClients_simps)
  have a2: "''weather in new york'' = extractAnswer
         (Get weatherClients (case MarshalIndent weatherClients () of Inl err \<Rightarrow> [] | Inr d \<Rightarrow> d)
            entityPath)
         (requestOf ''weather in new york'' ''message'')"
    by (simp add: weatherClients_def stubClients_simps extractAnswer_def notFound_def
        requestOf_message)
  have q2: "GetQueryResult weatherClients ''weather in new york'' = Inr weatherReport"
    by (simp add: weatherClients_def stubClients_simps fullEngine_def)
  have f: "formatFull weatherReport = Inr weatherReply"
    by (simp add: formatFull_def weatherReport_def weatherReply_def Let_def)
  have c1: "Success failedReport = ''false'' \<or> length (Pods failedReport) < 2"
    by (simp add: failedReport_def)
  have c2: "Success weatherReport \<noteq> ''false'' \<and> 2 \<le> length (Pods weatherReport)"
    by (simp add: weatherReport_def)
  show ?thesis
    using usability_check [of failedClients "requestOf ''weather in new york''" "()"
          "''weather in new york''" failedReport, OF p1 a1 q1] c1
      usability_check [of weatherClients "requestOf ''weather in new york''" "()"
          "''weather in new york''" weatherReport, OF p2 a2 q2] c2
    by (simp add: f requestOf_message)
qed

text \<open>
  C3. For a report \<open>A # B # rest\<close> that reaches the formatting and whose second pod \<open>B\<close>
  has a first subpod \<open>s\<close>, the final reply is the title of \<open>B\<close> between asterisks, a
  newline, and the plain text of \<open>s\<close> between triple backquotes. The first pod \<open>A\<close>, the
  pods in \<open>rest\<close> and the subpods in \<open>later\<close> do not occur in it.
\<close>

theorem full_reply_from_second_pod_only:
  assumes "Parse c (request ''message'') = Inr msg"
    and "a = extractAnswer
         (Get c (case MarshalIndent c msg of Inl err \<Rightarrow> [] | Inr d \<Rightarrow> d) entityPath)
         (request ''message'')"
    and "GetQueryResult c a = Inr res"
    and "Success res \<noteq> ''false''"
    and "Pods res = A # B # rest"
    and "SubPods B = s # later"
  shows "formatFull res =
           Inr (''*'' @ Title B @ ''*'' @ [CHR 0x0A] @
                [CHR 0x60, CHR 0x60, CHR 0x60] @ Plaintext s @ [CHR 0x60, CHR 0x60, CHR 0x60]) \<and>
         fullHandler c request =
           ([Reply ''Thinking...'',
             CallParse (request ''message''),
             CallGetQueryResult a,
             Reply (''*'' @ Title B @ ''*'' @ [CHR 0x0A] @
                    [CHR 0x60, CHR 0x60, CHR 0x60] @ Plaintext s @
                    [CHR 0x60, CHR 0x60, CHR 0x60])], Returned)"
proof -
  have f: "formatFull res =
           Inr (''*'' @ Title B @ ''*'' @ [CHR 0x0A] @
                [CHR 0x60, CHR 0x60, CHR 0x60] @ Plaintext s @ [CHR 0x60, CHR 0x60, CHR 0x60])"
    using assms(5,6) by (simp add: formatFull_def Let_def)
  have "\<not> (Success res = ''false'' \<or> length (Pods res) < 2)"
    using assms(4,5) by simp
  from fullHandler_format [of c request msg a res, OF assms(1-3) this] f
  show ?thesis by simp
qed

text \<open>
  C3, on the weather report: three pods, two subpods in the second.
\<close>

theorem full_reply_from_second_pod_only_witness:
  "formatFull weatherReport = Inr weatherReply \<and>
   fullHandler weatherClients (requestOf ''weather in new york'') =
     ([Reply ''Thinking...'',
       CallParse ''weather in new york'',
       CallGetQueryResult ''weather in new york'',
       Reply weatherReply], Returned)"
proof -
  have p: "Parse weatherClients (requestOf ''weather in new york'' ''message'') = Inr ()"
    by (simp add: weatherClients_def stubClients_simps)
  have a: "''weather in new york'' = extractAnswer
         (Get weatherClients (case MarshalIndent weatherClients () of Inl err \<Rightarrow> [] | Inr d \<Rightarrow> d)
            entityPath)
         (requestOf ''weather in new york'' ''message'')"
    by (simp add: weatherClients_def stubClients_simps extractAnswer_def notFound_def
        requestOf_message)
  have q: "GetQueryResult weatherClients ''weather in new york'' = Inr weatherReport"
    by (simp add: weatherClients_def stubClients_simps fullEngine_def)
  have s: "Success weatherReport \<noteq> ''false''"
    by (simp add: weatherReport_def)
  have ps: "Pods weatherReport =
      \<lparr>Title = ''Input interpretation'', SubPods = [\<lparr>Plaintext = ''weather | New York''\<rparr>]\<rparr> #
      \<lparr>Title = ''Weather'',
        SubPods = [\<lparr>Plaintext = ''72'' @ [CHR 0xC2, CHR 0xB0] @ ''F''\<rparr>,
                   \<lparr>Plaintext = ''clear''\<rparr>]\<rparr> #
      [\<lparr>Title = ''Forecast'', SubPods = [\<lparr>Plaintext = ''rain''\<rparr>]\<rparr>]"
    by (simp add: weatherReport_def)
  have sp: "SubPods \<lparr>Title = ''Weather'',
        SubPods = [\<lparr>Plaintext = ''72'' @ [CHR 0xC2, CHR 0xB0] @ ''F''\<rparr>,
                   \<lparr>Plaintext = ''clear''\<rparr>]\<rparr> =
      \<lparr>Plaintext = ''72'' @ [CHR 0xC2, CHR 0xB0] @ ''F''\<rparr> # [\<lparr>Plaintext = ''clear''\<rparr>]"
    by simp
  show ?thesis
    using full_reply_from_second_pod_only
      [of weatherClients "requestOf ''weather in new york''" "()" "''weather in new york''"
        weatherReport _ _ _ _ _, OF p a q s ps sp]
    by (simp add: weatherReply_def requestOf_message)
qed

text \<open>
  C10. The access \<^verbatim>\<open>pod.SubPods[0]\<close> is not safe for every report that passes the
  check: the report below has \<^verbatim>\<open>Success\<close> "true" and two pods, the second without a
  subpod, and the handler panics with an index out of range after the
  \<^verbatim>\<open>Thinking...\<close> reply, without a final reply.
\<close>

theorem subpods_index_panics:
  "Success noSubPodsReport \<noteq> ''false'' \<and> 2 \<le> length (Pods noSubPodsReport) \<and>
   GetQueryResult noSubPodsClients ''weather in new york'' = Inr noSubPodsReport \<and>
   fullHandler noSubPodsClients (requestOf ''weather in new york'') =
     ([Reply ''Thinking...'',
       CallParse ''weather in new york'',
       CallGetQueryResult ''weather in new york''], Panicked (IndexOutOfRange 0 0))"
  by (simp add: noSubPodsClients_def noSubPodsReport_def
      fullHandler_def formatFull_def extractAnswer_def stubClients_simps requestOf_message
      fullEngine_def notFound_def Let_def)

section \<open>Replies and failures (C4, C5, C6, C8, C9)\<close>

text \<open>
  C4, as the specification states it, fails: in full mode the handler replies twice in
  one invocation, the acknowledgement and the answer.
\<close>

theorem full_mode_replies_twice:
  "replies (fst (fullHandler weatherClients (requestOf ''weather in new york''))) =
     [''Thinking...'', weatherReply] \<and>
   length (replies (fst (fullHandler weatherClients (requestOf ''weather in new york'')))) = 2"
  by (simp add: weatherClients_def weatherReport_def weatherReply_def
      fullHandler_def formatFull_def extractAnswer_def stubClients_simps requestOf_message
      fullEngine_def notFound_def Let_def)

text \<open>
  C4, amended. In spoken mode an invocation produces exactly one reply, and the handler
  returns. In full mode an invocation that runs to its end produces exactly two replies,
  \<^verbatim>\<open>Thinking...\<close> and one final reply; the handler fails to run to its end only while
  formatting a report that passed the check and whose second pod has no subpod, so every
  handled failure gets its final reply.
\<close>

theorem reply_count:
  "length (replies (fst (queryHandler c request))) = 1 \<and>
   snd (queryHandler c request) = Returned \<and>
   (snd (fullHandler c request) = Returned \<longrightarrow>
      (\<exists>final. replies (fst (fullHandler c request)) = [''Thinking...'', final])) \<and>
   (snd (fullHandler c request) \<noteq> Returned \<longrightarrow>
      (\<exists>msg res.
           Parse c (request ''message'') = Inr msg \<and>
           GetQueryResult c
             (extractAnswer
                (Get c (case MarshalIndent c msg of Inl err \<Rightarrow> [] | Inr d \<Rightarrow> d) entityPath)
                (request ''message'')) = Inr res \<and>
           Success res \<noteq> ''false'' \<and> 2 \<le> length (Pods res) \<and> SubPods (Pods res ! 1) = []))"
  using queryHandler_one_reply [of c request] fullHandler_returned_replies [of c request]
    fullHandler_panic_only_in_format [of c request]
  by blast

text \<open>
  C4, amended, on a spoken run and on the full run of the weather report.
\<close>

theorem reply_count_witness:
  "length (replies (fst (queryHandler franceClients (requestOf ''what is the capital of france'')))) = 1 \<and>
   snd (fullHandler weatherClients (requestOf ''weather in new york'')) = Returned \<and>
   (\<exists>final. replies (fst (fullHandler weatherClients (requestOf ''weather in new york''))) =
      [''Thinking...'', final])"
  using reply_count [of franceClients "requestOf ''what is the capital of france''"]
    reply_count [of weatherClients "requestOf ''weather in new york''"]
  by (simp add: weather_run)

text \<open>
  C5, as the specification states it, fails: when the serialization of the NLU response
  fails in spoken mode, the reply is the message about processing the response, not the
  message about understanding.
\<close>

theorem spoken_marshal_error_reply:
  "replies (fst (queryHandler marshalFailClients (requestOf ''what is the capital of france''))) =
     [''Sorry, I'm having trouble processing the response.''] \<and>
   replies (fst (queryHandler marshalFailClients (requestOf ''what is the capital of france''))) \<noteq>
     [''Sorry, I'm having trouble understanding right now.'']"
  by (simp add: marshalFailClients_def queryHandler_def stubClients_simps requestOf_message)

text \<open>
  C5, amended. When the NLU call fails, a handler logs the error, replies with the fixed
  message about understanding (in full mode after \<^verbatim>\<open>Thinking...\<close>) and does nothing
  more. When the serialization fails in spoken mode, the handler logs the error, replies
  with the fixed message about processing the response and does nothing more.
\<close>

theorem nlu_failure_replies:
  "(Parse c (request ''message'') = Inl err \<longrightarrow>
      queryHandler c request =
        ([CallParse (request ''message''),
          LogPrintf (''error calling Wit.ai: '' @ err),
          Reply ''Sorry, I'm having trouble understanding right now.''], Returned) \<and>
      fullHandler c request =
        ([Reply ''Thinking...'',
          CallParse (request ''message''),
          LogPrintf (''error calling Wit.ai: '' @ err),
          Reply ''Sorry, I'm having trouble understanding right now.''], Returned)) \<and>
   (Parse c (request ''message'') = Inr msg \<and> MarshalIndent c msg = Inl err \<longrightarrow>
      queryHandler c request =
        ([CallParse (request ''message''),
          LogPrintf (''error marshalling wit.ai response: '' @ err),
          Reply ''Sorry, I'm having trouble processing the response.''], Returned))"
  using queryHandler_parse_error [of c request err] fullHandler_parse_error [of c request err]
    queryHandler_marshal_error [of c request msg err]
  by blast

text \<open>
  C5, amended, on a failing NLU call and on a failing serialization.
\<close>

theorem nlu_failure_replies_witness:
  "queryHandler parseFailClients (requestOf ''what is the capital of france'') =
     ([CallParse ''what is the capital of france'',
       LogPrintf ''error calling Wit.ai: 401 Unauthorized'',
       Reply ''Sorry, I'm having trouble understanding right now.''], Returned) \<and>
   fullHandler parseFailClients (requestOf ''what is the capital of france'') =
     ([Reply ''Thinking...'',
       CallParse ''what is the capital of france'',
       LogPrintf ''error calling Wit.ai: 401 Unauthorized'',
       Reply ''Sorry, I'm having trouble understanding right now.''], Returned) \<and>
   queryHandler marshalFailClients (requestOf ''what is the capital of france'') =
     ([CallParse ''what is the capital of france'',
       LogPrintf ''error marshalling wit.ai response: json: unsupported value: NaN'',
       Reply ''Sorry, I'm having trouble processing the response.''], Returned)"
proof -
  have p1: "Parse parseFailClients (requestOf ''what is the capital of france'' ''message'') =
      Inl ''401 Unauthorized''"
    by (simp add: parseFailClients_def stubClients_simps)
  have p2: "Parse marshalFailClients (requestOf ''what is the capital of france'' ''message'') =
      Inr ()"
    by (simp add: marshalFailClients_def stubClients_simps)
  have m2: "MarshalIndent marshalFailClients () = Inl ''json: unsupported value: NaN''"
    by (simp add: marshalFailClients_def stubClients_simps)
  show ?thesis
    using nlu_failure_replies [of parseFailClients "requestOf ''what is the capital of france''"
        "''401 Unauthorized''" "()"] p1
      nlu_failure_replies [of marshalFailClients "requestOf ''what is the capital of france''"
        "''json: unsupported value: NaN''" "()"] p2 m2
    by (simp add: requestOf_message)
qed

text \<open>
  C6. In full mode the error of \<^verbatim>\<open>json.MarshalIndent\<close> is dropped: on a failing
  serialization the handler logs nothing, sends no error reply and goes on with the
  user's text as the query, as if the NLU result held no entity (here it holds
  \<^verbatim>\<open>capital of france\<close>).
\<close>

theorem full_marshal_error_swallowed:
  "MarshalIndent marshalFailClients () = Inl ''json: unsupported value: NaN'' \<and>
   fullHandler marshalFailClients (requestOf ''weather in new york'') =
     ([Reply ''Thinking...'',
       CallParse ''weather in new york'',
       CallGetQueryResult ''weather in new york'',
       Reply weatherReply], Returned) \<and>
   logs (fst (fullHandler marshalFailClients (requestOf ''weather in new york''))) = []"
  by (simp add: marshalFailClients_def weatherReport_def weatherReply_def
      fullHandler_def formatFull_def extractAnswer_def stubClients_simps requestOf_message
      fullEngine_def notFound_def Let_def)

text \<open>
  C8. In spoken mode, when the NLU call and the serialization succeed and the knowledge
  engine answers \<open>res\<close>, the handler has made one call to the knowledge engine,
  \<^verbatim>\<open>GetSpokentAnswerQuery(answer, wolfram.Metric, 1000)\<close>, and its only reply is \<open>res\<close>
  itself.
\<close>

theorem spoken_round_trip:
  assumes "Parse c (request ''message'') = Inr msg"
    and "MarshalIndent c msg = Inr data"
    and "a = extractAnswer (Get c data entityPath) (request ''message'')"
    and "GetSpokentAnswerQuery c a Metric 1000 = Inr res"
  shows "queryHandler c request =
           ([CallParse (request ''message''),
             CallGetSpokentAnswerQuery a Metric 1000,
             Reply res], Returned) \<and>
         knowledgeCalls (fst (queryHandler c request)) =
           [CallGetSpokentAnswerQuery a Metric 1000] \<and>
         replies (fst (queryHandler c request)) = [res]"
proof -
  have "GetSpokentAnswerQuery c
      (extractAnswer (Get c data entityPath) (request ''message'')) Metric 1000 = Inr res"
    using assms(3,4) by simp
  from queryHandler_answer [of c request msg data res, OF assms(1,2) this] assms(3)
  show ?thesis by simp
qed

text \<open>
  C8, on the run where the knowledge engine answers \<^verbatim>\<open>Paris\<close>.
\<close>

theorem spoken_round_trip_witness:
  "queryHandler franceClients (requestOf ''what is the capital of france'') =
     ([CallParse ''what is the capital of france'',
       CallGetSpokentAnswerQuery ''capital of france'' Metric 1000,
       Reply ''Paris''], Returned) \<and>
   replies (fst (queryHandler franceClients (requestOf ''what is the capital of france''))) =
     [''Paris'']"
proof -
  have p: "Parse franceClients (requestOf ''what is the capital of france'' ''message'') = Inr ()"
    by (simp add: franceClients_def stubClients_simps)
  have m: "MarshalIndent franceClients () = Inr ''{ }''"
    by (simp add: franceClients_def stubClients_simps)
  have a: "''capital of france'' =
      extractAnswer (Get franceClients ''{ }'' entityPath)
        (requestOf ''what is the capital of france'' ''message'')"
    by (simp add: franceClients_def stubClients_simps extractAnswer_def found_def)
  have s: "GetSpokentAnswerQuery franceClients ''capital of france'' Metric 1000 = Inr ''Paris''"
    by (simp add: franceClients_def stubClients_simps spokenEngine_def)
  show ?thesis
    using spoken_round_trip
      [of franceClients "requestOf ''what is the capital of france''" "()" "''{ }''"
        "''capital of france''" "''Paris''", OF p m a s]
    by (simp add: requestOf_message)
qed

text \<open>
  C9. In full mode the first thing the handler does, for every request and whatever the
  collaborators answer, is to reply \<^verbatim>\<open>Thinking...\<close>; the call to the NLU service comes
  second, and every other call, log line and reply after that.
\<close>

theorem fullHandler_thinking_first:
  "take 2 (fst (fullHandler c request)) =
     [Reply ''Thinking...'', CallParse (request ''message'')]"
  by (simp add: fullHandler_def Let_def split: sum.split)

end
